theory Spec2Isabelle
  imports Main
begin

section \<open>Data model\<close>

text \<open>
  The bridge of \<^verbatim>\<open>src/docker/mcp-tool-handler.py\<close> moves JSON documents between a
  front protocol and a backend. A JSON document is what \<^verbatim>\<open>json.loads\<close> returns: a
  Python dict is an association list with distinct keys in insertion order, a float is
  kept as its lexeme (the bridge never computes with numbers).
\<close>

datatype json =
    JNull
  | JBool bool
  | JInt int
  | JFloat string
  | JStr string
  | JArr "json list"
  | JObj "(string \<times> json) list"

text \<open>
  The subclasses of Python's \<^verbatim>\<open>Exception\<close> that the code raises or meets; the argument
  is the message, which is what \<^verbatim>\<open>str(e)\<close> returns. \<open>ConnectionError\<close> stands
  for \<^verbatim>\<open>requests.exceptions.ConnectionError\<close> and its subclasses, \<open>OtherException\<close>
  for any other subclass of \<^verbatim>\<open>Exception\<close>.
\<close>

datatype exn =
    ValueError string
  | AttributeError string
  | TypeError string
  | RuntimeError string
  | ConnectionError string
  | JSONDecodeError string
  | TimeoutExpired string
  | OtherException string

fun str_exn :: "exn \<Rightarrow> string" where
  "str_exn (ValueError m) = m"
| "str_exn (AttributeError m) = m"
| "str_exn (TypeError m) = m"
| "str_exn (RuntimeError m) = m"
| "str_exn (ConnectionError m) = m"
| "str_exn (JSONDecodeError m) = m"
| "str_exn (TimeoutExpired m) = m"
| "str_exn (OtherException m) = m"

text \<open>The configuration read from the environment at import time (lines 32 to 37).\<close>

record config =
  REGISTRY_URL :: string
  TOOL_ID :: string
  AUTH_TOKEN :: string
  TOOL_PORT :: int
  REVIT_HOST :: string
  REVIT_PORT :: int

text \<open>
  What \<^verbatim>\<open>requests.get\<close> and \<^verbatim>\<open>requests.post\<close> hand back: the status code, the body
  text, and the outcome of \<^verbatim>\<open>response.json()\<close>, which raises on a body that is not JSON.
\<close>

record response =
  status_code :: int
  text_body :: string
  json_body :: "exn + json"

text \<open>
  The child process, seen from \<^verbatim>\<open>shutdown\<close>: the number of seconds it needs to exit
  once it has been sent the termination signal, \<open>None\<close> when it never exits.
\<close>

record process =
  exit_after :: "nat option"
  returncode :: int

record handler =
  tool_schemas :: "(string \<times> json) list"
  revit_server_process :: "process option"

datatype log_entry = Info string | Error string

section \<open>Python primitives\<close>

definition quoted :: "string \<Rightarrow> string" where
  "quoted s = CHR 0x27 # s @ [CHR 0x27]"

fun type_name :: "json \<Rightarrow> string" where
  "type_name JNull = ''NoneType''"
| "type_name (JBool b) = ''bool''"
| "type_name (JInt i) = ''int''"
| "type_name (JFloat f) = ''float''"
| "type_name (JStr s) = ''str''"
| "type_name (JArr xs) = ''list''"
| "type_name (JObj kvs) = ''dict''"

text \<open>
  \<^verbatim>\<open>d.get(key, default)\<close>: defined on a dict only; every other JSON value has no
  attribute \<^verbatim>\<open>get\<close> and the call raises \<^verbatim>\<open>AttributeError\<close>.
\<close>

definition dict_get :: "(string \<times> json) list \<Rightarrow> string \<Rightarrow> json \<Rightarrow> json" where
  "dict_get kvs k dflt = (case map_of kvs k of None \<Rightarrow> dflt | Some v \<Rightarrow> v)"

fun py_get :: "json \<Rightarrow> string \<Rightarrow> json \<Rightarrow> exn + json" where
  "py_get (JObj kvs) k dflt = Inr (dict_get kvs k dflt)"
| "py_get v k dflt =
     Inl (AttributeError (quoted (type_name v) @ '' object has no attribute '' @ quoted ''get''))"

text \<open>\<^verbatim>\<open>str(n)\<close> of an integer, as an f-string formats a status code or a port.\<close>

fun digits :: "nat \<Rightarrow> string" where
  "digits n =
     (if n < 10 then [char_of (48 + n)]
      else digits (n div 10) @ [char_of (48 + n mod 10)])"

declare digits.simps [simp del]

definition str_int :: "int \<Rightarrow> string" where
  "str_int i = (if i < 0 then CHR ''-'' # digits (nat (- i)) else digits (nat i))"

text \<open>\<^verbatim>\<open>s.strip('/')\<close>, \<^verbatim>\<open>s.split(c)\<close> and \<^verbatim>\<open>s.endswith(suffix)\<close>.\<close>

definition strip_char :: "char \<Rightarrow> string \<Rightarrow> string" where
  "strip_char c s = rev (dropWhile (\<lambda>x. x = c) (rev (dropWhile (\<lambda>x. x = c) s)))"

fun split_on :: "char \<Rightarrow> string \<Rightarrow> string list" where
  "split_on c [] = [[]]"
| "split_on c (x # xs) =
     (if x = c then [] # split_on c xs
      else (case split_on c xs of
              [] \<Rightarrow> [[x]]
            | w # ws \<Rightarrow> (x # w) # ws))"

definition endswith :: "string \<Rightarrow> string \<Rightarrow> bool" where
  "endswith s suffix =
     (length suffix \<le> length s \<and> drop (length s - length suffix) s = suffix)"

text \<open>\<^verbatim>\<open>d[k] = v\<close>: an existing key keeps its place, a new key goes last.\<close>

definition dict_set :: "(string \<times> json) list \<Rightarrow> string \<Rightarrow> json \<Rightarrow> (string \<times> json) list" where
  "dict_set kvs k v =
     (if k \<in> fst ` set kvs then map (\<lambda>(k', v'). if k' = k then (k', v) else (k', v')) kvs
      else kvs @ [(k, v)])"

section \<open>Schema loading\<close>

text \<open>
  \<^verbatim>\<open>_load_tool_schemas\<close> (lines 49 to 57). The directory is the list that
  \<^verbatim>\<open>os.listdir\<close> returns, each name with the outcome of opening the file and
  \<^verbatim>\<open>json.load\<close> on it; the first failure ends the loop, as the exception does.
\<close>

fun load_files :: "(string \<times> (exn + json)) list \<Rightarrow> (string \<times> json) list
    \<Rightarrow> exn + (string \<times> json) list" where
  "load_files [] schemas = Inr schemas"
| "load_files ((filename, content) # rest) schemas =
     (if endswith filename ''.json'' then
        (case content of
           Inl e \<Rightarrow> Inl e
         | Inr v \<Rightarrow> load_files rest (dict_set schemas (hd (split_on CHR ''.'' filename)) v))
      else load_files rest schemas)"

definition load_tool_schemas :: "exn + (string \<times> (exn + json)) list
    \<Rightarrow> exn + (string \<times> json) list" where
  "load_tool_schemas listing =
     (case listing of Inl e \<Rightarrow> Inl e | Inr files \<Rightarrow> load_files files [])"

text \<open>\<^verbatim>\<open>__init__\<close> (lines 45 to 47).\<close>

definition init_handler :: "exn + (string \<times> (exn + json)) list \<Rightarrow> exn + handler" where
  "init_handler listing =
     (case load_tool_schemas listing of
        Inl e \<Rightarrow> Inl e
      | Inr schemas \<Rightarrow> Inr \<lparr>tool_schemas = schemas, revit_server_process = None\<rparr>)"

section \<open>Request translation\<close>

text \<open>\<^verbatim>\<open>translate_mcp_to_revit\<close> (lines 134 to 163).\<close>

definition translate_mcp_to_revit :: "string \<Rightarrow> json \<Rightarrow> exn + json" where
  "translate_mcp_to_revit tool_name mcp_request =
     (if tool_name = ''revit_element_query'' then
        (case py_get mcp_request ''inputs'' (JObj []) of
           Inl e \<Rightarrow> Inl e
         | Inr inputs1 \<Rightarrow>
        (case py_get inputs1 ''category'' (JStr '''') of
           Inl e \<Rightarrow> Inl e
         | Inr category \<Rightarrow>
        (case py_get mcp_request ''inputs'' (JObj []) of
           Inl e \<Rightarrow> Inl e
         | Inr inputs2 \<Rightarrow>
        (case py_get inputs2 ''filter'' (JStr '''') of
           Inl e \<Rightarrow> Inl e
         | Inr filter_expr \<Rightarrow>
             Inr (JObj [(''action'', JStr ''getElementsByCategory''),
                        (''parameters'', JObj [(''category'', category),
                                               (''filterExpression'', filter_expr)])])))))
      else if tool_name = ''revit_dynamo_execute'' then
        (case py_get mcp_request ''inputs'' (JObj []) of
           Inl e \<Rightarrow> Inl e
         | Inr inputs1 \<Rightarrow>
        (case py_get inputs1 ''script_path'' (JStr '''') of
           Inl e \<Rightarrow> Inl e
         | Inr script_path \<Rightarrow>
        (case py_get mcp_request ''inputs'' (JObj []) of
           Inl e \<Rightarrow> Inl e
         | Inr inputs2 \<Rightarrow>
        (case py_get inputs2 ''parameters'' (JObj []) of
           Inl e \<Rightarrow> Inl e
         | Inr parameters \<Rightarrow>
             Inr (JObj [(''action'', JStr ''runDynamoScript''),
                        (''parameters'', JObj [(''scriptPath'', script_path),
                                               (''scriptParameters'', parameters)])])))))
      else Inl (ValueError (''Unknown tool: '' @ tool_name)))"

text \<open>\<^verbatim>\<open>translate_revit_to_mcp\<close> (lines 165 to 192).\<close>

definition translate_revit_to_mcp :: "string \<Rightarrow> json \<Rightarrow> exn + json" where
  "translate_revit_to_mcp tool_name revit_response =
     (case py_get revit_response ''status'' JNull of
        Inl e \<Rightarrow> Inl e
      | Inr st \<Rightarrow>
          if st = JStr ''error'' then
            (case py_get revit_response ''error'' (JStr ''Unknown error'') of
               Inl e \<Rightarrow> Inl e
             | Inr msg \<Rightarrow> Inr (JObj [(''status'', JStr ''error''), (''error'', msg)]))
          else
            (case py_get revit_response ''data'' (JObj []) of
               Inl e \<Rightarrow> Inl e
             | Inr data \<Rightarrow>
                 if tool_name = ''revit_element_query'' then
                   Inr (JObj [(''status'', JStr ''success''), (''result'', data)])
                 else if tool_name = ''revit_dynamo_execute'' then
                   Inr (JObj [(''status'', JStr ''success''),
                              (''result'', JObj [(''success'', JBool True),
                                                 (''results'', data)])])
                 else Inl (ValueError (''Unknown tool: '' @ tool_name))))"

section \<open>Request dispatch\<close>

text \<open>
  \<^verbatim>\<open>handle_tool_request\<close> (lines 194 to 232). The backend is the parameter
  \<open>post\<close>: the outcome of \<^verbatim>\<open>requests.post(endpoint, json=revit_request, ...)\<close>, a
  response or the exception raised. The function returns the result dictionary together
  with the outbound calls it made, in order. The body of the \<^verbatim>\<open>try\<close> is
  \<open>handle_tool_request_body\<close>; the \<^verbatim>\<open>except Exception\<close> clause is the case
  distinction of \<open>handle_tool_request\<close>.
\<close>

type_synonym backend = "string \<Rightarrow> json \<Rightarrow> exn + response"

definition error_result :: "string \<Rightarrow> json" where
  "error_result msg = JObj [(''status'', JStr ''error''), (''error'', JStr msg)]"

definition base_url :: "config \<Rightarrow> string" where
  "base_url cfg = ''http://'' @ REVIT_HOST cfg @ '':'' @ str_int (REVIT_PORT cfg)"

definition handle_tool_request_body :: "config \<Rightarrow> handler \<Rightarrow> backend \<Rightarrow> string \<Rightarrow> json
    \<Rightarrow> (exn + json) \<times> (string \<times> json) list" where
  "handle_tool_request_body cfg self post tool_name request_data =
     (case translate_mcp_to_revit tool_name request_data of
        Inl e \<Rightarrow> (Inl e, [])
      | Inr revit_request \<Rightarrow>
          (case (if tool_name = ''revit_element_query''
                   then Inr (base_url cfg @ ''/api/element/mcp'')
                 else if tool_name = ''revit_dynamo_execute''
                   then Inr (base_url cfg @ ''/api/dynamo/mcp'')
                 else Inl (ValueError (''Unknown tool: '' @ tool_name))) of
             Inl e \<Rightarrow> (Inl e, [])
           | Inr endpoint \<Rightarrow>
               (case post endpoint revit_request of
                  Inl e \<Rightarrow> (Inl e, [(endpoint, revit_request)])
                | Inr resp \<Rightarrow>
                    if status_code resp \<noteq> 200 then
                      (Inr (error_result (''Revit MCP Server returned status ''
                              @ str_int (status_code resp) @ '': '' @ text_body resp)),
                       [(endpoint, revit_request)])
                    else
                      (case json_body resp of
                         Inl e \<Rightarrow> (Inl e, [(endpoint, revit_request)])
                       | Inr revit_response \<Rightarrow>
                           (translate_revit_to_mcp tool_name revit_response,
                            [(endpoint, revit_request)])))))"

definition handle_tool_request :: "config \<Rightarrow> handler \<Rightarrow> backend \<Rightarrow> string \<Rightarrow> json
    \<Rightarrow> json \<times> (string \<times> json) list" where
  "handle_tool_request cfg self post tool_name request_data =
     (case handle_tool_request_body cfg self post tool_name request_data of
        (Inr result, calls) \<Rightarrow> (result, calls)
      | (Inl e, calls) \<Rightarrow> (error_result (str_exn e), calls))"

text \<open>
  \<^verbatim>\<open>MCP_ToolRequestHandler.do_POST\<close> (lines 259 to 274). An inbound request carries
  its path, the outcome of \<^verbatim>\<open>int(self.headers['Content-Length'])\<close> and the outcome of
  \<^verbatim>\<open>json.loads\<close> on the body read. The method either writes a response (status
  code, headers, body) or lets an exception leave it, to the HTTP server that called it.
\<close>

record http_request =
  path :: string
  content_length :: "exn + int"
  body_json :: "exn + json"

datatype http_outcome =
    Sent int "(string \<times> string) list" json
  | Raised exn

definition do_POST :: "config \<Rightarrow> handler \<Rightarrow> backend \<Rightarrow> http_request
    \<Rightarrow> http_outcome \<times> (string \<times> json) list" where
  "do_POST cfg self post rq =
     (case content_length rq of
        Inl e \<Rightarrow> (Raised e, [])
      | Inr n \<Rightarrow>
          (case body_json rq of
             Inl e \<Rightarrow> (Raised e, [])
           | Inr request_data \<Rightarrow>
               (let tool_name = last (split_on CHR ''/'' (strip_char CHR ''/'' (path rq)));
                    (response_data, calls) =
                       handle_tool_request cfg self post tool_name request_data
                in (Sent 200 [(''Content-type'', ''application/json'')] response_data, calls))))"

section \<open>Backend supervision\<close>

text \<open>
  \<^verbatim>\<open>_wait_for_server_ready\<close> (lines 85 to 101). The outcome of the \<open>i\<close>-th health
  probe is \<open>probe i\<close>. \<open>wait_loop\<close> is the \<^verbatim>\<open>for\<close> loop with \<open>k\<close> iterations
  left; it returns the result, the number of probes issued and the seconds slept. Only a
  status code equal to 200 ends the wait, only \<open>ConnectionError\<close> is caught, and
  \<^verbatim>\<open>range(max_retries)\<close> is empty for a budget below one.
\<close>

fun wait_loop :: "(nat \<Rightarrow> exn + response) \<Rightarrow> nat \<Rightarrow> nat \<Rightarrow> nat \<Rightarrow> nat
    \<Rightarrow> (exn + unit) \<times> nat \<times> nat" where
  "wait_loop probe retry_interval i slept 0 =
     (Inl (RuntimeError ''Failed to connect to Revit MCP Server''), i, slept)"
| "wait_loop probe retry_interval i slept (Suc k) =
     (case probe i of
        Inr resp \<Rightarrow>
          if status_code resp = 200 then (Inr (), Suc i, slept)
          else wait_loop probe retry_interval (Suc i) (slept + retry_interval) k
      | Inl (ConnectionError m) \<Rightarrow>
          wait_loop probe retry_interval (Suc i) (slept + retry_interval) k
      | Inl e \<Rightarrow> (Inl e, Suc i, slept))"

definition wait_for_server_ready :: "(nat \<Rightarrow> exn + response) \<Rightarrow> int \<Rightarrow> nat
    \<Rightarrow> (exn + unit) \<times> nat \<times> nat" where
  "wait_for_server_ready probe max_retries retry_interval =
     wait_loop probe retry_interval 0 0 (nat max_retries)"

text \<open>
  \<^verbatim>\<open>shutdown\<close> (lines 234 to 240). \<^verbatim>\<open>Popen.wait(timeout=t)\<close> returns the exit
  code when the process exits within \<open>t\<close> seconds and raises \<^verbatim>\<open>TimeoutExpired\<close>
  after \<open>t\<close> seconds otherwise; the second component is the time the call took.
  \<open>shutdown\<close> returns its result, the lines it logged, the operations it applied to the
  process, and the time it waited. No \<^verbatim>\<open>try\<close> surrounds the wait.
\<close>

datatype process_op = Terminate | Wait nat

definition timeout_message :: "nat \<Rightarrow> string" where
  "timeout_message t =
     ''Command '' @ quoted (''['' @ quoted ''dotnet'' @ '', '' @ quoted ''RevitMcpServer.dll'' @ '']'')
       @ '' timed out after '' @ str_int (int t) @ '' seconds''"

definition popen_wait :: "process \<Rightarrow> nat \<Rightarrow> (exn + int) \<times> nat" where
  "popen_wait p t =
     (case exit_after p of
        Some d \<Rightarrow>
          if d \<le> t then (Inr (returncode p), d)
          else (Inl (TimeoutExpired (timeout_message t)), t)
      | None \<Rightarrow> (Inl (TimeoutExpired (timeout_message t)), t))"

definition shutdown :: "handler \<Rightarrow> (exn + unit) \<times> log_entry list \<times> process_op list \<times> nat" where
  "shutdown self =
     (case revit_server_process self of
        None \<Rightarrow> (Inr (), [Info ''Revit MCP Tool Handler shutdown complete''], [], 0)
      | Some p \<Rightarrow>
          (case popen_wait p 5 of
             (Inl e, t) \<Rightarrow>
               (Inl e, [Info ''Stopping Revit MCP Server...''], [Terminate, Wait 5], t)
           | (Inr rc, t) \<Rightarrow>
               (Inr (), [Info ''Stopping Revit MCP Server...'',
                         Info ''Revit MCP Tool Handler shutdown complete''],
                [Terminate, Wait 5], t)))"

section \<open>Tool registration\<close>

text \<open>
  \<^verbatim>\<open>register_tools\<close> (lines 103 to 132). The registry is the parameter \<open>post\<close>:
  the outcome of \<^verbatim>\<open>requests.post(url, json=registration_data, headers=...)\<close>. The
  registration data is built outside the \<^verbatim>\<open>try\<close>, so a schema that is not a dict
  raises \<^verbatim>\<open>AttributeError\<close> out of the loop; the call and the status test are inside
  it. The function has no \<^verbatim>\<open>return\<close> statement: it returns \<^verbatim>\<open>None\<close>, here
  \<open>JNull\<close>. Beside the returned value stand the lines logged in the loop and the calls
  made, both in order.
\<close>

type_synonym registry = "string \<Rightarrow> json \<Rightarrow> (string \<times> string) list \<Rightarrow> exn + response"

definition registration_data :: "config \<Rightarrow> string \<Rightarrow> json \<Rightarrow> exn + json" where
  "registration_data cfg tool_name schema =
     (case py_get schema ''name'' (JStr tool_name) of Inl e \<Rightarrow> Inl e | Inr nm \<Rightarrow>
     (case py_get schema ''description'' (JStr []) of Inl e \<Rightarrow> Inl e | Inr descr \<Rightarrow>
     (case py_get schema ''version'' (JStr ''1.0.0'') of Inl e \<Rightarrow> Inl e | Inr ver \<Rightarrow>
     (case py_get schema ''input_schema'' (JObj []) of Inl e \<Rightarrow> Inl e | Inr inp \<Rightarrow>
     (case py_get schema ''output_schema'' (JObj []) of Inl e \<Rightarrow> Inl e | Inr outp \<Rightarrow>
        Inr (JObj [(''id'', JStr (TOOL_ID cfg @ ''.'' @ tool_name)),
                   (''name'', nm),
                   (''description'', descr),
                   (''version'', ver),
                   (''input_schema'', inp),
                   (''output_schema'', outp),
                   (''endpoint'', JStr (''http://revit-mcp-tool:'' @ str_int (TOOL_PORT cfg)
                                        @ ''/tools/'' @ tool_name))]))))))"

definition register_one :: "config \<Rightarrow> registry \<Rightarrow> string \<Rightarrow> json \<Rightarrow> log_entry" where
  "register_one cfg post tool_id data =
     (case post (REGISTRY_URL cfg @ ''/v1/tools'') data
                [(''Authorization'', ''Bearer '' @ AUTH_TOKEN cfg)] of
        Inr resp \<Rightarrow>
          if status_code resp = 200 \<or> status_code resp = 201
          then Info (''Successfully registered tool: '' @ tool_id)
          else Error (''Failed to register tool '' @ tool_id @ '': ''
                      @ str_int (status_code resp) @ '' - '' @ text_body resp)
      | Inl e \<Rightarrow> Error (''Error registering tool '' @ tool_id @ '': '' @ str_exn e))"

fun register_loop :: "config \<Rightarrow> registry \<Rightarrow> (string \<times> json) list
    \<Rightarrow> (exn + json) \<times> log_entry list \<times> (string \<times> json) list" where
  "register_loop cfg post [] = (Inr JNull, [], [])"
| "register_loop cfg post ((tool_name, schema) # rest) =
     (case registration_data cfg tool_name schema of
        Inl e \<Rightarrow> (Inl e, [], [])
      | Inr data \<Rightarrow>
          (case register_loop cfg post rest of
             (res, logged, calls) \<Rightarrow>
               (res,
                register_one cfg post (TOOL_ID cfg @ ''.'' @ tool_name) data # logged,
                (REGISTRY_URL cfg @ ''/v1/tools'', data) # calls)))"

definition register_tools :: "config \<Rightarrow> handler \<Rightarrow> registry
    \<Rightarrow> (exn + json) \<times> log_entry list \<times> (string \<times> json) list" where
  "register_tools cfg self post =
     (case register_loop cfg post (tool_schemas self) of
        (res, logged, calls) \<Rightarrow>
          (res,
           Info (''Registering tools with MCP registry at '' @ REGISTRY_URL cfg @ ''...'')
             # logged,
           calls))"

section \<open>Scenarios and auxiliary predicates\<close>

text \<open>The configuration the module falls back to when no environment variable is set.\<close>

definition default_config :: config where
  "default_config =
     \<lparr>REGISTRY_URL = ''http://localhost:8081'', TOOL_ID = ''revit'',
      AUTH_TOKEN = ''default-dev-token'', TOOL_PORT = 8082,
      REVIT_HOST = ''localhost'', REVIT_PORT = 5000\<rparr>"

text \<open>A handler whose schema directory holds no file, and one with two schema files.\<close>

definition empty_store_handler :: handler where
  "empty_store_handler = \<lparr>tool_schemas = [], revit_server_process = None\<rparr>"

definition two_schema_handler :: handler where
  "two_schema_handler =
     \<lparr>tool_schemas = [(''revit_element_query'', JObj [(''version'', JStr ''2.0.0'')]),
                      (''revit_dynamo_execute'', JObj [])],
      revit_server_process = None\<rparr>"

text \<open>Handlers whose child process never exits, and exits two seconds after the signal.\<close>

definition hung_process_handler :: handler where
  "hung_process_handler =
     \<lparr>tool_schemas = [], revit_server_process = Some \<lparr>exit_after = None, returncode = 0\<rparr>\<rparr>"

definition prompt_process_handler :: handler where
  "prompt_process_handler =
     \<lparr>tool_schemas = [], revit_server_process = Some \<lparr>exit_after = Some 2, returncode = 0\<rparr>\<rparr>"

text \<open>A backend that answers every call with status 200 and a count of three.\<close>

definition backend_ok :: backend where
  "backend_ok endpoint revit_request =
     Inr \<lparr>status_code = 200, text_body = ''{\"status\": \"ok\", \"data\": {\"count\": 3}}'',
          json_body = Inr (JObj [(''status'', JStr ''ok''),
                                 (''data'', JObj [(''count'', JInt 3)])])\<rparr>"

text \<open>
  Two inbound requests: one whose nine-byte body \<^verbatim>\<open>{not json\<close> makes \<^verbatim>\<open>json.loads\<close>
  raise, and one with the body \<^verbatim>\<open>{}\<close> for a tool that does not exist.
\<close>

definition malformed_body_request :: http_request where
  "malformed_body_request =
     \<lparr>path = ''/tools/revit_element_query'', content_length = Inr 9,
      body_json = Inl (JSONDecodeError
        ''Expecting property name enclosed in double quotes: line 1 column 2 (char 1)'')\<rparr>"

definition unknown_tool_request :: http_request where
  "unknown_tool_request =
     \<lparr>path = ''/tools/revit_nonexistent'', content_length = Inr 2, body_json = Inr (JObj [])\<rparr>"

text \<open>
  Health probes: a backend that answers 204 every time, one that refuses every
  connection, and one that refuses the first \<open>j\<close> connections and then answers 200.
\<close>

definition probe_204 :: "nat \<Rightarrow> exn + response" where
  "probe_204 i =
     Inr \<lparr>status_code = 204, text_body = [],
          json_body = Inl (JSONDecodeError ''Expecting value: line 1 column 1 (char 0)'')\<rparr>"

definition probe_refused :: "nat \<Rightarrow> exn + response" where
  "probe_refused i = Inl (ConnectionError ''Connection refused'')"

definition probe_ready_at :: "nat \<Rightarrow> nat \<Rightarrow> exn + response" where
  "probe_ready_at j i =
     (if i < j then Inl (ConnectionError ''Connection refused'')
      else Inr \<lparr>status_code = 200, text_body = ''{}'', json_body = Inr (JObj [])\<rparr>)"

text \<open>A registry that answers 500 for the element query tool and 201 for every other.\<close>

definition registry_flaky :: registry where
  "registry_flaky url data headers =
     (if py_get data ''id'' JNull = Inr (JStr ''revit.revit_element_query'')
      then Inr \<lparr>status_code = 500, text_body = ''Internal Server Error'',
                json_body = Inl (JSONDecodeError ''Expecting value: line 1 column 1 (char 0)'')\<rparr>
      else Inr \<lparr>status_code = 201, text_body = ''{}'', json_body = Inr (JObj [])\<rparr>)"

text \<open>The \<^verbatim>\<open>status\<close> field of a result dictionary.\<close>

fun result_status :: "json \<Rightarrow> json" where
  "result_status (JObj kvs) = dict_get kvs ''status'' JNull"
| "result_status v = JNull"

text \<open>
  What one iteration of the readiness loop does with a probe outcome: \<open>ready\<close> outcomes
  end the wait with success, \<open>retried\<close> outcomes lead to the sleep and the next
  iteration, and an outcome that is neither is an exception that leaves the function.
\<close>

fun ready :: "exn + response \<Rightarrow> bool" where
  "ready (Inr resp) = (status_code resp = 200)"
| "ready (Inl e) = False"

fun retried :: "exn + response \<Rightarrow> bool" where
  "retried (Inr resp) = (status_code resp \<noteq> 200)"
| "retried (Inl (ConnectionError m)) = True"
| "retried (Inl e) = False"

text \<open>
  Following the spec's words, not the source: a health probe succeeds on "any 2xx", and
  \<^verbatim>\<open>register_all\<close> "returns a list" with one outcome per schema.
\<close>

definition spec_2xx :: "int \<Rightarrow> bool" where
  "spec_2xx code = (200 \<le> code \<and> code < 300)"

definition spec_returns_outcomes :: "exn + json \<Rightarrow> nat \<Rightarrow> bool" where
  "spec_returns_outcomes ret n =
     (case ret of Inr (JArr outcomes) \<Rightarrow> length outcomes = n | _ \<Rightarrow> False)"

text \<open>
  For one entry of the schema dictionary: the registration data built from it, the call
  sent to the registry, and the line logged for it.
\<close>

fun is_dict :: "json \<Rightarrow> bool" where
  "is_dict (JObj kvs) = True"
| "is_dict v = False"

definition the_registration_data :: "config \<Rightarrow> string \<times> json \<Rightarrow> json" where
  "the_registration_data cfg entry =
     (case registration_data cfg (fst entry) (snd entry) of
        Inr data \<Rightarrow> data
      | Inl e \<Rightarrow> JNull)"

definition registry_call :: "config \<Rightarrow> string \<times> json \<Rightarrow> string \<times> json" where
  "registry_call cfg entry = (REGISTRY_URL cfg @ ''/v1/tools'', the_registration_data cfg entry)"

definition logged_outcome :: "config \<Rightarrow> registry \<Rightarrow> string \<times> json \<Rightarrow> log_entry" where
  "logged_outcome cfg post entry =
     register_one cfg post (TOOL_ID cfg @ ''.'' @ fst entry) (the_registration_data cfg entry)"

text \<open>Whether the process is gone \<open>t\<close> seconds after the termination signal.\<close>

definition exits_in_time :: "process \<Rightarrow> nat \<Rightarrow> bool" where
  "exits_in_time p t = (case exit_after p of Some d \<Rightarrow> d \<le> t | None \<Rightarrow> False)"

section \<open>Request translation: properties\<close>

text \<open>
  Claim C5. For the tool \<^verbatim>\<open>revit_element_query\<close>, the request with inputs category
  "Walls" and filter "Height>10" is translated to the backend request with action
  \<^verbatim>\<open>getElementsByCategory\<close> and parameters category "Walls", filterExpression
  "Height>10"; the backend response with status "ok" and data \<^verbatim>\<open>{count: 3}\<close> is
  translated to status "success" with result \<^verbatim>\<open>{count: 3}\<close>.
\<close>

theorem element_query_scenario:
  "translate_mcp_to_revit ''revit_element_query''
     (JObj [(''inputs'', JObj [(''category'', JStr ''Walls''), (''filter'', JStr ''Height>10'')])])
   = Inr (JObj [(''action'', JStr ''getElementsByCategory''),
                (''parameters'', JObj [(''category'', JStr ''Walls''),
                                       (''filterExpression'', JStr ''Height>10'')])])
   \<and> translate_revit_to_mcp ''revit_element_query''
     (JObj [(''status'', JStr ''ok''), (''data'', JObj [(''count'', JInt 3)])])
   = Inr (JObj [(''status'', JStr ''success''), (''result'', JObj [(''count'', JInt 3)])])"
  by (simp add: translate_mcp_to_revit_def translate_revit_to_mcp_def dict_get_def)

text \<open>
  Claim C4. Whatever the tool name, known or not, a backend response whose status field
  is "error" is translated to the error shape carrying the backend's error message
  (or "Unknown error" when the response has none); the tool name and the data field play
  no part. In particular the response with status "error" and error "timeout" gives status
  "error" and error "timeout" for every tool name.
\<close>

theorem backend_error_short_circuit:
  assumes "map_of resp ''status'' = Some (JStr ''error'')"
  shows "translate_revit_to_mcp tool_name (JObj resp)
           = Inr (JObj [(''status'', JStr ''error''),
                        (''error'', dict_get resp ''error'' (JStr ''Unknown error''))])
         \<and> translate_revit_to_mcp tool_name
             (JObj [(''status'', JStr ''error''), (''error'', JStr ''timeout'')])
           = Inr (JObj [(''status'', JStr ''error''), (''error'', JStr ''timeout'')])"
  using assms by (simp add: translate_revit_to_mcp_def dict_get_def)

theorem backend_error_short_circuit_witness:
  "map_of [(''status'', JStr ''error''), (''error'', JStr ''disk full''), (''data'', JInt 1)]
       ''status''
     = Some (JStr ''error'')
   \<and> translate_revit_to_mcp ''revit_nonexistent''
       (JObj [(''status'', JStr ''error''), (''error'', JStr ''disk full''), (''data'', JInt 1)])
     = Inr (JObj [(''status'', JStr ''error''), (''error'', JStr ''disk full'')])"
  using backend_error_short_circuit
    [of "[(''status'', JStr ''error''), (''error'', JStr ''disk full''), (''data'', JInt 1)]"
        "''revit_nonexistent''"]
  by (simp add: dict_get_def)

text \<open>
  Claim C9. For both known tools, a request dictionary that lacks the inputs mapping, or
  whose inputs mapping lacks an expected key, is translated without failure: the missing
  inputs mapping counts as the empty one, and a missing key yields its default, the empty
  string (the empty mapping for the dynamo script parameters).
\<close>

theorem missing_inputs_defaults:
  assumes "dict_get req ''inputs'' (JObj []) = JObj ins"
  shows "translate_mcp_to_revit ''revit_element_query'' (JObj req)
           = Inr (JObj [(''action'', JStr ''getElementsByCategory''),
                        (''parameters'',
                           JObj [(''category'', dict_get ins ''category'' (JStr [])),
                                 (''filterExpression'', dict_get ins ''filter'' (JStr []))])])
         \<and> translate_mcp_to_revit ''revit_dynamo_execute'' (JObj req)
           = Inr (JObj [(''action'', JStr ''runDynamoScript''),
                        (''parameters'',
                           JObj [(''scriptPath'', dict_get ins ''script_path'' (JStr [])),
                                 (''scriptParameters'', dict_get ins ''parameters'' (JObj []))])])
         \<and> (map_of req ''inputs'' = None \<longrightarrow> ins = [])
         \<and> (map_of ins k = None \<longrightarrow> dict_get ins k dflt = dflt)"
  using assms by (auto simp add: translate_mcp_to_revit_def dict_get_def)

theorem missing_inputs_defaults_witness:
  "dict_get [(''tool_name'', JStr ''revit_element_query'')] ''inputs'' (JObj []) = JObj []
   \<and> translate_mcp_to_revit ''revit_element_query''
        (JObj [(''tool_name'', JStr ''revit_element_query'')])
     = Inr (JObj [(''action'', JStr ''getElementsByCategory''),
                  (''parameters'', JObj [(''category'', JStr []),
                                         (''filterExpression'', JStr [])])])
   \<and> translate_mcp_to_revit ''revit_dynamo_execute''
        (JObj [(''tool_name'', JStr ''revit_element_query'')])
     = Inr (JObj [(''action'', JStr ''runDynamoScript''),
                  (''parameters'', JObj [(''scriptPath'', JStr []),
                                         (''scriptParameters'', JObj [])])])"
  using missing_inputs_defaults
    [of "[(''tool_name'', JStr ''revit_element_query'')]" "[]" "''category''" "JStr []"]
  by (simp add: dict_get_def)

section \<open>Request dispatch: properties\<close>

lemma translation_failure_contained:
  assumes "translate_mcp_to_revit tool_name request_data = Inl e"
  shows "handle_tool_request cfg self post tool_name request_data
           = (error_result (str_exn e), [])"
  using assms by (simp add: handle_tool_request_def handle_tool_request_body_def)

lemma unknown_tool_translation:
  assumes "tool_name \<noteq> ''revit_element_query''" and "tool_name \<noteq> ''revit_dynamo_execute''"
  shows "translate_mcp_to_revit tool_name request_data
           = Inl (ValueError (''Unknown tool: '' @ tool_name))"
  using assms by (simp add: translate_mcp_to_revit_def)

lemma handler_state_unused:
  "handle_tool_request cfg self' post tool_name request_data
     = handle_tool_request cfg self post tool_name request_data"
  by (simp add: handle_tool_request_def handle_tool_request_body_def)

lemma translate_revit_to_mcp_shape:
  assumes "translate_revit_to_mcp tool_name revit_response = Inr result"
  shows "(\<exists>msg. result = JObj [(''status'', JStr ''error''), (''error'', msg)])
       \<or> (\<exists>payload. result = JObj [(''status'', JStr ''success''), (''result'', payload)])"
  using assms
  by (auto simp add: translate_revit_to_mcp_def split: sum.splits if_splits)

text \<open>
  Inside \<^verbatim>\<open>handle_tool_request\<close> every failure is contained: whatever the tool name,
  the payload and the backend do, the value returned is one of the two result shapes.
\<close>

lemma handle_tool_request_shape:
  "(\<exists>msg. fst (handle_tool_request cfg self post tool_name request_data)
            = JObj [(''status'', JStr ''error''), (''error'', msg)])
   \<or> (\<exists>payload. fst (handle_tool_request cfg self post tool_name request_data)
            = JObj [(''status'', JStr ''success''), (''result'', payload)])"
proof (cases "handle_tool_request_body cfg self post tool_name request_data")
  case (Pair res calls)
  show ?thesis
  proof (cases res)
    case (Inl e)
    with Pair show ?thesis
      by (simp add: handle_tool_request_def error_result_def)
  next
    case (Inr result)
    with Pair have "(\<exists>m. result = error_result m) \<or>
        (\<exists>r. translate_revit_to_mcp tool_name r = Inr result)"
      by (auto simp add: handle_tool_request_body_def split: sum.splits if_splits)
    then show ?thesis
      using Pair Inr translate_revit_to_mcp_shape
      by (auto simp add: handle_tool_request_def error_result_def)
  qed
qed

text \<open>
  Claim C1. The claim asks that every failure of an inbound request, a malformed payload
  included, ends in the uniform error result and that no exception reaches the HTTP
  server. \<^verbatim>\<open>do_POST\<close> parses the body before it enters \<^verbatim>\<open>handle_tool_request\<close>,
  outside every \<^verbatim>\<open>try\<close>: for the body \<^verbatim>\<open>{not json\<close> the exception of
  \<^verbatim>\<open>json.loads\<close> leaves \<^verbatim>\<open>do_POST\<close>, and no response is written.
\<close>

theorem malformed_body_escapes:
  "do_POST default_config empty_store_handler backend_ok malformed_body_request
     = (Raised (JSONDecodeError
          ''Expecting property name enclosed in double quotes: line 1 column 2 (char 1)''), [])"
  by (simp add: do_POST_def malformed_body_request_def)

text \<open>
  Claim C3. A request that names a tool other than the two the translator knows is
  answered with exactly status "error" and error "Unknown tool: " followed by the name,
  and no call to the backend is made, whatever the payload and the backend are.
\<close>

theorem unknown_tool_no_backend_call:
  assumes "tool_name \<noteq> ''revit_element_query''" and "tool_name \<noteq> ''revit_dynamo_execute''"
  shows "handle_tool_request cfg self post tool_name request_data
           = (JObj [(''status'', JStr ''error''),
                    (''error'', JStr (''Unknown tool: '' @ tool_name))], [])"
  using assms
  by (simp add: handle_tool_request_def handle_tool_request_body_def
      translate_mcp_to_revit_def error_result_def)

theorem unknown_tool_no_backend_call_witness:
  "''revit_nonexistent'' \<noteq> ''revit_element_query''
   \<and> ''revit_nonexistent'' \<noteq> ''revit_dynamo_execute''
   \<and> handle_tool_request default_config two_schema_handler backend_ok ''revit_nonexistent''
        (JObj [(''inputs'', JObj [(''category'', JStr ''Walls'')])])
     = (JObj [(''status'', JStr ''error''),
              (''error'', JStr ''Unknown tool: revit_nonexistent'')], [])"
  using unknown_tool_no_backend_call
    [of "''revit_nonexistent''" default_config two_schema_handler backend_ok
        "JObj [(''inputs'', JObj [(''category'', JStr ''Walls'')])]"]
  by simp

text \<open>
  Claim C2, as the claim states it, fails: with an empty schema directory the store has
  no entry for \<^verbatim>\<open>revit_element_query\<close>, and a request for that tool is still
  processed to a successful result, since the dispatcher never consults the store.
\<close>

theorem success_without_schema_entry:
  "fst (handle_tool_request default_config empty_store_handler backend_ok
          ''revit_element_query'' (JObj []))
     = JObj [(''status'', JStr ''success''), (''result'', JObj [(''count'', JInt 3)])]
   \<and> map_of (tool_schemas empty_store_handler) ''revit_element_query'' = None
   \<and> init_handler (Inr []) = Inr empty_store_handler"
  by (simp add: handle_tool_request_def handle_tool_request_body_def
      translate_mcp_to_revit_def translate_revit_to_mcp_def backend_ok_def dict_get_def
      empty_store_handler_def init_handler_def load_tool_schemas_def)

text \<open>
  Claim C2, amended. Every tool name that the dispatcher processes to a result whose
  status is not "error" is one of the two names the translator maps, and its request was
  translated; a name without a translator mapping therefore always ends in an error
  result. The schema store plays no part: the result is the same for every handler state.
\<close>

theorem success_needs_translator_mapping:
  assumes "result_status (fst (handle_tool_request cfg self post tool_name request_data))
             \<noteq> JStr ''error''"
  shows "(tool_name = ''revit_element_query'' \<or> tool_name = ''revit_dynamo_execute'')
         \<and> (\<exists>revit_request. translate_mcp_to_revit tool_name request_data = Inr revit_request)
         \<and> handle_tool_request cfg self' post tool_name request_data
             = handle_tool_request cfg self post tool_name request_data"
proof -
  have ok: "\<exists>revit_request. translate_mcp_to_revit tool_name request_data = Inr revit_request"
  proof (cases "translate_mcp_to_revit tool_name request_data")
    case (Inl e)
    from translation_failure_contained [OF Inl] assms show ?thesis
      by (simp add: error_result_def dict_get_def)
  next
    case (Inr r)
    then show ?thesis by blast
  qed
  have known: "tool_name = ''revit_element_query'' \<or> tool_name = ''revit_dynamo_execute''"
  proof (rule ccontr)
    assume "\<not> ?thesis"
    then have "translate_mcp_to_revit tool_name request_data
                 = Inl (ValueError (''Unknown tool: '' @ tool_name))"
      by (simp add: unknown_tool_translation)
    with ok show False by simp
  qed
  from known ok handler_state_unused show ?thesis by blast
qed

theorem success_needs_translator_mapping_witness:
  "result_status (fst (handle_tool_request default_config empty_store_handler backend_ok
       ''revit_element_query'' (JObj []))) \<noteq> JStr ''error''
   \<and> (\<exists>revit_request.
         translate_mcp_to_revit ''revit_element_query'' (JObj []) = Inr revit_request)"
proof -
  have run: "result_status (fst (handle_tool_request default_config empty_store_handler
       backend_ok ''revit_element_query'' (JObj []))) \<noteq> JStr ''error''"
    by (simp add: handle_tool_request_def handle_tool_request_body_def
      translate_mcp_to_revit_def translate_revit_to_mcp_def backend_ok_def dict_get_def)
  from success_needs_translator_mapping [OF run] run show ?thesis by blast
qed

text \<open>
  Claim C10. Whenever \<^verbatim>\<open>do_POST\<close> writes a response, its status code is 200 and its
  content type is JSON, also when the body written is the uniform error result: success
  and error differ in the body only.
\<close>

theorem post_replies_200:
  assumes "do_POST cfg self post rq = (Sent code hdrs body, calls)"
  shows "code = 200 \<and> hdrs = [(''Content-type'', ''application/json'')]"
  using assms
  by (auto simp add: do_POST_def Let_def split: sum.splits prod.splits)

theorem post_replies_200_witness:
  "do_POST default_config empty_store_handler backend_ok unknown_tool_request
     = (Sent 200 [(''Content-type'', ''application/json'')]
          (JObj [(''status'', JStr ''error''),
                 (''error'', JStr ''Unknown tool: revit_nonexistent'')]), [])
   \<and> (200::int) = 200"
proof -
  have run: "do_POST default_config empty_store_handler backend_ok unknown_tool_request
     = (Sent 200 [(''Content-type'', ''application/json'')]
          (JObj [(''status'', JStr ''error''),
                 (''error'', JStr ''Unknown tool: revit_nonexistent'')]), [])"
    by (simp add: do_POST_def unknown_tool_request_def strip_char_def
        handle_tool_request_def handle_tool_request_body_def translate_mcp_to_revit_def
        error_result_def)
  from post_replies_200 [OF run] run show ?thesis by simp
qed

section \<open>Backend supervision: properties\<close>

lemma wait_loop_retry:
  assumes "retried (probe i)"
  shows "wait_loop probe ri i slept (Suc k) = wait_loop probe ri (Suc i) (slept + ri) k"
  using assms by (cases "probe i" rule: retried.cases) simp_all

lemma wait_loop_ready:
  assumes "ready (probe i)"
  shows "wait_loop probe ri i slept (Suc k) = (Inr (), Suc i, slept)"
  using assms by (cases "probe i" rule: ready.cases) simp_all

lemma wait_loop_raise:
  assumes "probe i = Inl e" and "\<not> retried (probe i)"
  shows "wait_loop probe ri i slept (Suc k) = (Inl e, Suc i, slept)"
  using assms by (cases e) simp_all

lemma wait_loop_exhausted:
  assumes "\<forall>n. i \<le> n \<and> n < i + k \<longrightarrow> retried (probe n)"
  shows "wait_loop probe ri i slept k
           = (Inl (RuntimeError ''Failed to connect to Revit MCP Server''), i + k, slept + k * ri)"
  using assms
proof (induction k arbitrary: i slept)
  case 0
  then show ?case by simp
next
  case (Suc k)
  have "retried (probe i)" using Suc.prems by simp
  moreover have "\<forall>n. Suc i \<le> n \<and> n < Suc i + k \<longrightarrow> retried (probe n)"
    using Suc.prems by simp
  ultimately show ?case
    using Suc.IH [of "Suc i" "slept + ri"]
    by (simp add: wait_loop_retry del: wait_loop.simps)
qed

lemma wait_loop_stops:
  assumes "\<forall>n. i \<le> n \<and> n < i + j \<longrightarrow> retried (probe n)"
    and "\<not> retried (probe (i + j))" and "j < k"
  shows "wait_loop probe ri i slept k
           = ((case probe (i + j) of Inr resp \<Rightarrow> Inr () | Inl e \<Rightarrow> Inl e),
              Suc (i + j), slept + j * ri)"
  using assms
proof (induction j arbitrary: i slept k)
  case 0
  then obtain k' where k: "k = Suc k'" by (cases k) auto
  show ?case
  proof (cases "probe i")
    case (Inl e)
    with 0 have "\<not> retried (probe i)" by simp
    with wait_loop_raise [of probe i e ri slept k'] Inl k show ?thesis by simp
  next
    case (Inr resp)
    with 0 have "ready (probe i)" by simp
    with wait_loop_ready [of probe i ri slept k'] Inr k show ?thesis by simp
  qed
next
  case (Suc j)
  then obtain k' where k: "k = Suc k'" and jk: "j < k'" by (cases k) auto
  have r: "retried (probe i)" using Suc.prems(1) by simp
  have rest: "\<forall>n. Suc i \<le> n \<and> n < Suc i + j \<longrightarrow> retried (probe n)"
    using Suc.prems(1) by simp
  have stop: "\<not> retried (probe (Suc i + j))" using Suc.prems(2) by simp
  show ?case
    using Suc.IH [OF rest stop jk, of "slept + ri"] r k
    by (simp add: wait_loop_retry del: wait_loop.simps)
qed

lemma wait_loop_bound: "fst (snd (wait_loop probe ri i slept k)) \<le> i + k"
proof (induction k arbitrary: i slept)
  case 0
  then show ?case by simp
next
  case (Suc k)
  show ?case
  proof (cases "retried (probe i)")
    case True
    then show ?thesis
      using Suc [of "Suc i" "slept + ri"]
      by (simp add: wait_loop_retry del: wait_loop.simps)
  next
    case False
    show ?thesis
    proof (cases "probe i")
      case (Inl e)
      with wait_loop_raise [of probe i e ri slept k] False show ?thesis by simp
    next
      case (Inr resp)
      with False have "ready (probe i)" by simp
      with wait_loop_ready [of probe i ri slept k] show ?thesis by simp
    qed
  qed
qed

text \<open>
  Claim C6, as the claim states it, fails: a backend whose health endpoint answers 204,
  a 2xx status, is never taken as ready; with a budget of three the wait ends with the
  error after three probes.
\<close>

theorem probe_204_not_ready:
  "wait_for_server_ready probe_204 3 1
     = (Inl (RuntimeError ''Failed to connect to Revit MCP Server''), 3, 3)
   \<and> map_sum str_exn status_code (probe_204 0) = Inr 204 \<and> spec_2xx 204"
  by (simp add: wait_for_server_ready_def probe_204_def spec_2xx_def numeral_3_eq_3)

text \<open>
  Claim C6, amended. For every attempt budget and every sequence of probe outcomes the
  wait ends after at most \<open>max_retries\<close> probes. It succeeds at the first probe that
  answers with status 200, provided every earlier probe was retried (a refused connection
  or an answer with another status, other 2xx statuses included). When each of the first
  \<open>max_retries\<close> probes is retried, it raises \<^verbatim>\<open>RuntimeError\<close> after exactly
  \<open>max_retries\<close> probes. An exception other than a connection error leaves the wait at
  the probe that raised it.
\<close>

theorem await_ready_terminates:
  "fst (snd (wait_for_server_ready probe max_retries ri)) \<le> nat max_retries
   \<and> ((\<forall>n < j. retried (probe n)) \<and> ready (probe j) \<and> int j < max_retries
        \<longrightarrow> wait_for_server_ready probe max_retries ri = (Inr (), Suc j, j * ri))
   \<and> ((\<forall>n < nat max_retries. retried (probe n))
        \<longrightarrow> wait_for_server_ready probe max_retries ri
              = (Inl (RuntimeError ''Failed to connect to Revit MCP Server''),
                 nat max_retries, nat max_retries * ri))
   \<and> ((\<forall>n < j. retried (probe n)) \<and> probe j = Inl e \<and> \<not> retried (probe j)
          \<and> int j < max_retries
        \<longrightarrow> wait_for_server_ready probe max_retries ri = (Inl e, Suc j, j * ri))"
proof (intro conjI impI)
  show "fst (snd (wait_for_server_ready probe max_retries ri)) \<le> nat max_retries"
    using wait_loop_bound [of probe ri 0 0 "nat max_retries"]
    by (simp add: wait_for_server_ready_def)
next
  assume a: "(\<forall>n < j. retried (probe n)) \<and> ready (probe j) \<and> int j < max_retries"
  then obtain resp where resp: "probe j = Inr resp" "status_code resp = 200"
    by (cases "probe j") auto
  then have nr: "\<not> retried (probe (0 + j))" by simp
  from a have pre: "\<forall>n. 0 \<le> n \<and> n < 0 + j \<longrightarrow> retried (probe n)" by simp
  from a have lt: "j < nat max_retries" by linarith
  from wait_loop_stops [OF pre nr lt, of ri 0] resp
  show "wait_for_server_ready probe max_retries ri = (Inr (), Suc j, j * ri)"
    by (simp add: wait_for_server_ready_def)
next
  assume "\<forall>n < nat max_retries. retried (probe n)"
  then have "\<forall>n. 0 \<le> n \<and> n < 0 + nat max_retries \<longrightarrow> retried (probe n)" by simp
  from wait_loop_exhausted [OF this, of ri 0]
  show "wait_for_server_ready probe max_retries ri
              = (Inl (RuntimeError ''Failed to connect to Revit MCP Server''),
                 nat max_retries, nat max_retries * ri)"
    by (simp add: wait_for_server_ready_def)
next
  assume a: "(\<forall>n < j. retried (probe n)) \<and> probe j = Inl e \<and> \<not> retried (probe j)
          \<and> int j < max_retries"
  then have nr: "\<not> retried (probe (0 + j))" by auto
  from a have pre: "\<forall>n. 0 \<le> n \<and> n < 0 + j \<longrightarrow> retried (probe n)" by simp
  from a have lt: "j < nat max_retries" by linarith
  from wait_loop_stops [OF pre nr lt, of ri 0] a
  show "wait_for_server_ready probe max_retries ri = (Inl e, Suc j, j * ri)"
    by (simp add: wait_for_server_ready_def)
qed

theorem await_ready_terminates_witness:
  "retried (probe_ready_at 2 0) \<and> retried (probe_ready_at 2 1)
   \<and> ready (probe_ready_at 2 2) \<and> int 2 < 30
   \<and> wait_for_server_ready (probe_ready_at 2) 30 1 = (Inr (), 3, 2)
   \<and> retried (probe_refused 0) \<and> retried (probe_refused 1)
   \<and> retried (probe_refused 2) \<and> retried (probe_refused 3)
   \<and> wait_for_server_ready probe_refused 4 1
       = (Inl (RuntimeError ''Failed to connect to Revit MCP Server''), 4, 4)"
proof -
  have c1: "retried (probe_ready_at 2 0) \<and> retried (probe_ready_at 2 1)"
    by (simp add: probe_ready_at_def)
  have c2: "retried (probe_refused 0) \<and> retried (probe_refused 1)
      \<and> retried (probe_refused 2) \<and> retried (probe_refused 3)"
    by (simp add: probe_refused_def)
  have h1: "(\<forall>n < 2. retried (probe_ready_at 2 n)) \<and> ready (probe_ready_at 2 2)
      \<and> int 2 < 30"
    by (simp add: probe_ready_at_def)
  have h2: "\<forall>n < nat 4. retried (probe_refused n)"
    by (simp add: probe_refused_def)
  from await_ready_terminates [of "probe_ready_at 2" 30 1 2] h1
  have r1: "wait_for_server_ready (probe_ready_at 2) 30 1 = (Inr (), 3, 2)"
    by simp
  from await_ready_terminates [of probe_refused 4 1] h2
  have r2: "wait_for_server_ready probe_refused 4 1
       = (Inl (RuntimeError ''Failed to connect to Revit MCP Server''), 4, 4)"
    by simp
  from c1 c2 h1 r1 r2 show ?thesis by blast
qed

text \<open>
  Claim C8. The claim asks that a process which does not exit within the timeout is
  logged and not escalated. \<^verbatim>\<open>shutdown\<close> has no \<^verbatim>\<open>try\<close> around
  \<^verbatim>\<open>wait(timeout=5)\<close>: for a process that never exits, \<^verbatim>\<open>TimeoutExpired\<close> leaves
  \<^verbatim>\<open>shutdown\<close> as an exception after the five seconds, the only line logged is the
  one written before the signal, and the completion line that every other path logs is
  skipped.
\<close>

theorem shutdown_timeout_escalates:
  "shutdown hung_process_handler
     = (Inl (TimeoutExpired (timeout_message 5)), [Info ''Stopping Revit MCP Server...''],
        [Terminate, Wait 5], 5)"
  by (simp add: shutdown_def hung_process_handler_def popen_wait_def)

text \<open>
  The paths of \<^verbatim>\<open>shutdown\<close>, case by case. The wait is bounded by five seconds on
  every path; the path without a process and the path of a process that exits in time
  both end with the completion line, the path of a process that does not exit in time ends
  with the exception.
\<close>

lemma shutdown_cases:
  "snd (snd (snd (shutdown self))) \<le> 5
   \<and> (revit_server_process self = None
        \<longrightarrow> shutdown self
              = (Inr (), [Info ''Revit MCP Tool Handler shutdown complete''], [], 0))
   \<and> (revit_server_process self = Some p \<and> exit_after p = Some d \<and> d \<le> 5
        \<longrightarrow> shutdown self
              = (Inr (), [Info ''Stopping Revit MCP Server...'',
                          Info ''Revit MCP Tool Handler shutdown complete''],
                 [Terminate, Wait 5], d))
   \<and> (revit_server_process self = Some p \<and> \<not> exits_in_time p 5
        \<longrightarrow> shutdown self
              = (Inl (TimeoutExpired (timeout_message 5)),
                 [Info ''Stopping Revit MCP Server...''], [Terminate, Wait 5], 5))"
  by (auto simp add: shutdown_def popen_wait_def exits_in_time_def split: option.splits)

lemma shutdown_cases_example:
  "revit_server_process prompt_process_handler = Some \<lparr>exit_after = Some 2, returncode = 0\<rparr>
   \<and> exit_after \<lparr>exit_after = Some 2, returncode = 0\<rparr> = Some 2 \<and> (2::nat) \<le> 5
   \<and> shutdown prompt_process_handler
       = (Inr (), [Info ''Stopping Revit MCP Server...'',
                   Info ''Revit MCP Tool Handler shutdown complete''],
          [Terminate, Wait 5], 2)
   \<and> revit_server_process empty_store_handler = None
   \<and> shutdown empty_store_handler
       = (Inr (), [Info ''Revit MCP Tool Handler shutdown complete''], [], 0)"
  using shutdown_cases
          [of prompt_process_handler "\<lparr>exit_after = Some 2, returncode = 0\<rparr>" 2]
        shutdown_cases [of empty_store_handler]
  by (simp add: prompt_process_handler_def empty_store_handler_def)

section \<open>Tool registration: properties\<close>

lemma registration_data_dict:
  assumes "is_dict schema"
  shows "registration_data cfg tool_name schema
           = Inr (the_registration_data cfg (tool_name, schema))"
  using assms
  by (cases schema) (simp_all add: the_registration_data_def registration_data_def)

lemma register_loop_all:
  assumes "\<forall>entry \<in> set schemas. is_dict (snd entry)"
  shows "register_loop cfg post schemas
           = (Inr JNull, map (logged_outcome cfg post) schemas, map (registry_call cfg) schemas)"
  using assms
proof (induction schemas)
  case Nil
  then show ?case by simp
next
  case (Cons entry rest)
  obtain tool_name schema where entry: "entry = (tool_name, schema)" by (cases entry)
  with Cons.prems have "is_dict schema" by simp
  then have "registration_data cfg tool_name schema
               = Inr (the_registration_data cfg (tool_name, schema))"
    by (rule registration_data_dict)
  moreover have "register_loop cfg post rest
           = (Inr JNull, map (logged_outcome cfg post) rest, map (registry_call cfg) rest)"
    using Cons by simp
  ultimately show ?case
    using entry by (simp add: logged_outcome_def registry_call_def)
qed

text \<open>
  Claim C7, as the claim states it, fails: \<^verbatim>\<open>register_tools\<close> has no return
  statement. With two schemas, one of which the registry rejects with status 500, the
  value returned is \<^verbatim>\<open>None\<close>, not a list of two outcomes.
\<close>

theorem register_tools_returns_none:
  "\<not> spec_returns_outcomes
        (fst (register_tools default_config two_schema_handler registry_flaky)) 2
   \<and> fst (register_tools default_config two_schema_handler registry_flaky) = Inr JNull"
  by (simp add: register_tools_def two_schema_handler_def registration_data_def
      spec_returns_outcomes_def split: prod.splits)

text \<open>
  Claim C7, amended. For every collection of N schemas, each a dictionary,
  \<^verbatim>\<open>register_tools\<close> makes one registration call per schema, in schema order, and
  logs one outcome per schema after its opening line; it returns no value. The line
  logged for a schema depends on the answer to that schema's call alone: a transport
  error or a status other than 200 and 201 is logged as an error for that tool, and the
  calls for the remaining schemas are made all the same.
\<close>

theorem register_tools_isolated:
  assumes "\<forall>entry \<in> set (tool_schemas self). is_dict (snd entry)"
  shows "register_tools cfg self post
           = (Inr JNull,
              Info (''Registering tools with MCP registry at '' @ REGISTRY_URL cfg @ ''...'')
                # map (logged_outcome cfg post) (tool_schemas self),
              map (registry_call cfg) (tool_schemas self))
         \<and> length (snd (snd (register_tools cfg self post))) = length (tool_schemas self)
         \<and> (post (REGISTRY_URL cfg @ ''/v1/tools'') data
                  [(''Authorization'', ''Bearer '' @ AUTH_TOKEN cfg)] = Inl e
              \<longrightarrow> register_one cfg post tool_id data
                    = Error (''Error registering tool '' @ tool_id @ '': '' @ str_exn e))
         \<and> (post (REGISTRY_URL cfg @ ''/v1/tools'') data
                  [(''Authorization'', ''Bearer '' @ AUTH_TOKEN cfg)] = Inr resp
               \<and> status_code resp \<noteq> 200 \<and> status_code resp \<noteq> 201
              \<longrightarrow> register_one cfg post tool_id data
                    = Error (''Failed to register tool '' @ tool_id @ '': ''
                             @ str_int (status_code resp) @ '' - '' @ text_body resp))"
  using register_loop_all [OF assms, of cfg post]
  by (simp add: register_tools_def register_one_def)

theorem register_tools_isolated_witness:
  "list_all is_dict (map snd (tool_schemas two_schema_handler))
   \<and> fst (snd (register_tools default_config two_schema_handler registry_flaky))
       = [Info ''Registering tools with MCP registry at http://localhost:8081...'',
          Error ''Failed to register tool revit.revit_element_query: 500 - Internal Server Error'',
          Info ''Successfully registered tool: revit.revit_dynamo_execute'']
   \<and> length (snd (snd (register_tools default_config two_schema_handler registry_flaky))) = 2"
proof -
  have h: "\<forall>entry \<in> set (tool_schemas two_schema_handler). is_dict (snd entry)"
    by (simp add: two_schema_handler_def)
  have d500: "str_int 500 = ''500''"
    by code_simp
  have l1: "logged_outcome default_config registry_flaky
              (''revit_element_query'', JObj [(''version'', JStr ''2.0.0'')])
            = Error ''Failed to register tool revit.revit_element_query: 500 - Internal Server Error''"
    by (simp add: logged_outcome_def register_one_def the_registration_data_def
        registration_data_def registry_flaky_def default_config_def dict_get_def d500)
  have l2: "logged_outcome default_config registry_flaky (''revit_dynamo_execute'', JObj [])
            = Info ''Successfully registered tool: revit.revit_dynamo_execute''"
    by (simp add: logged_outcome_def register_one_def the_registration_data_def
        registration_data_def registry_flaky_def default_config_def dict_get_def)
  have h': "list_all is_dict (map snd (tool_schemas two_schema_handler))"
    by (simp add: two_schema_handler_def)
  from register_tools_isolated [OF h, of default_config registry_flaky] h' l1 l2
  show ?thesis
    by (simp add: two_schema_handler_def default_config_def)
qed

end
